theory Spec2Isabelle
  imports Complex_Main
begin

section \<open>Python values used by \<^verbatim>\<open>src/matcher.py\<close>\<close>

text \<open>
  A Python \<^verbatim>\<open>str\<close> is a sequence of Unicode code points; a code point is the
  integer \<^verbatim>\<open>ord\<close> gives.
\<close>

type_synonym pystr = "int list"

definition ascii :: "string \<Rightarrow> pystr" where
  "ascii s = map of_char s"

text \<open>A backslash (code point 92) followed by ASCII text, to write patterns such as \<^verbatim>\<open>\d+\<close>.\<close>

definition bslash :: "string \<Rightarrow> pystr" where
  "bslash s = 92 # ascii s"

text \<open>
  The exceptions the module can meet. It catches some of them; the others propagate to the
  caller. \<open>OtherError\<close> stands for every exception type the module never names.
\<close>

datatype py_exn = ReError | IndexError | ValueError | AttributeError | OverflowError | OtherError

text \<open>
  A Python \<^verbatim>\<open>float\<close>: a finite double is the rational number it denotes; the two
  infinities and NaN are values of their own. The numbers of the configuration are
  Python ints or floats, and Python compares an int with a float exactly, so they are
  values of the same type. \<open>float_le x y\<close> is \<^verbatim>\<open>x <= y\<close>: false whenever NaN is involved.
\<close>

datatype pyfloat = Finite rat | PosInf | NegInf | NaN

fun float_le :: "pyfloat \<Rightarrow> pyfloat \<Rightarrow> bool" where
  "float_le NaN y = False"
| "float_le x NaN = False"
| "float_le NegInf y = True"
| "float_le x PosInf = True"
| "float_le (Finite a) (Finite b) = (a \<le> b)"
| "float_le (Finite a) NegInf = False"
| "float_le PosInf y = False"

subsection \<open>String methods\<close>

text \<open>\<^verbatim>\<open>s.startswith(p)\<close> and the substring test \<^verbatim>\<open>sub in s\<close>.\<close>

fun startswith :: "pystr \<Rightarrow> pystr \<Rightarrow> bool" where
  "startswith s [] = True"
| "startswith [] (p # ps) = False"
| "startswith (c # cs) (p # ps) = (c = p \<and> startswith cs ps)"

fun py_in :: "pystr \<Rightarrow> pystr \<Rightarrow> bool" where
  "py_in sub [] = (sub = [])"
| "py_in sub (c # cs) = (startswith (c # cs) sub \<or> py_in sub cs)"

text \<open>
  \<^verbatim>\<open>s.replace(old, new)\<close>: every occurrence of \<open>old\<close>, left to right, without overlap.
  The module only calls it with a literal, non-empty \<open>old\<close>; for an empty \<open>old\<close> the
  model returns \<open>s\<close> unchanged.
\<close>

function py_replace :: "pystr \<Rightarrow> pystr \<Rightarrow> pystr \<Rightarrow> pystr" where
  "py_replace old new [] = []"
| "py_replace old new (c # cs) =
     (if old \<noteq> [] \<and> startswith (c # cs) old
      then new @ py_replace old new (drop (length old) (c # cs))
      else c # py_replace old new cs)"
  by pat_completeness auto
termination
  by (relation "measure (\<lambda>(old, new, s). length s)") auto

text \<open>\<^verbatim>\<open>s.rfind(c)\<close> for a one-character \<open>c\<close>: the last index of \<open>c\<close>, or \<open>-1\<close>.\<close>

definition py_rfind :: "int \<Rightarrow> pystr \<Rightarrow> int" where
  "py_rfind c s =
     (case filter (\<lambda>i. s ! i = c) (rev [0..<length s]) of
        [] \<Rightarrow> - 1
      | i # _ \<Rightarrow> int i)"

text \<open>
  \<^verbatim>\<open>str.isspace\<close> on one character: the code points Python counts as whitespace.
  \<^verbatim>\<open>s.strip()\<close> removes them at both ends.
\<close>

definition chr_isspace :: "int \<Rightarrow> bool" where
  "chr_isspace c =
     ((9 \<le> c \<and> c \<le> 13) \<or> (28 \<le> c \<and> c \<le> 32) \<or> c = 0x85 \<or> c = 0xA0 \<or> c = 0x1680
      \<or> (0x2000 \<le> c \<and> c \<le> 0x200A) \<or> c = 0x2028 \<or> c = 0x2029 \<or> c = 0x202F
      \<or> c = 0x205F \<or> c = 0x3000)"

definition py_strip :: "pystr \<Rightarrow> pystr" where
  "py_strip s = rev (dropWhile chr_isspace (rev (dropWhile chr_isspace s)))"

subsection \<open>The library as a parameter\<close>

text \<open>
  Five functions of Python's library depend on the Unicode tables, on floating point or on
  the pattern language. They are not code of the module, and the model does not fix them:
  every function of the module takes them as its first argument \<open>lib\<close>, and the
  theorems hold for every \<open>lib\<close>.

  \<^item> \<open>re_search\<close> is \<^verbatim>\<open>re.search(pattern, text, flags)\<close>: the flag is
    \<^verbatim>\<open>re.IGNORECASE\<close>, \<open>Inl\<close> is a raised exception (\<open>ReError\<close> for \<^verbatim>\<open>re.error\<close>),
    \<open>Inr None\<close> is no match. A match object gives \<^verbatim>\<open>group(0)\<close> and the capturing
    groups from \<^verbatim>\<open>group(1)\<close> on; a group that took no part in the match is \<open>None\<close>.
  \<^item> \<open>str_lower\<close>, \<open>str_upper\<close> and \<open>str_isdigit\<close> are \<^verbatim>\<open>s.lower()\<close>,
    \<^verbatim>\<open>s.upper()\<close> and \<^verbatim>\<open>s.isdigit()\<close>.
  \<^item> \<open>float_of\<close> is \<^verbatim>\<open>float(s)\<close>; \<open>Inl ValueError\<close> when the string is no number.
\<close>

record re_match =
  group0 :: pystr
  groups :: "pystr option list"

record pylib =
  re_search :: "bool \<Rightarrow> pystr \<Rightarrow> pystr \<Rightarrow> py_exn + re_match option"
  str_lower :: "pystr \<Rightarrow> pystr"
  str_upper :: "pystr \<Rightarrow> pystr"
  str_isdigit :: "pystr \<Rightarrow> bool"
  float_of :: "pystr \<Rightarrow> py_exn + pyfloat"

text \<open>\<^verbatim>\<open>re.escape\<close>: a backslash before each special character.\<close>

definition re_special :: "int list" where
  "re_special = [40, 41, 91, 93, 123, 125, 63, 42, 43, 45, 124, 94, 36, 92, 46, 38, 126, 35,
                 32, 9, 10, 13, 11, 12]"

definition re_escape :: "pystr \<Rightarrow> pystr" where
  "re_escape s = concat (map (\<lambda>c. if c \<in> set re_special then [92, c] else [c]) s)"

section \<open>The module \<^verbatim>\<open>src/matcher.py\<close>\<close>

subsection \<open>Configuration and results\<close>

text \<open>
  The configuration dictionaries. A key that may be absent is an option. A price range is
  a dictionary with the keys \<^verbatim>\<open>min\<close> and \<^verbatim>\<open>max\<close>, both optional. The field
  \<open>keywords'\<close> is the key \<^verbatim>\<open>keywords\<close>.
\<close>

record PriceRange =
  range_min :: "pyfloat option"
  range_max :: "pyfloat option"

record Product =
  name :: "pystr option"
  keywords' :: "pystr list"
  exclude_keywords :: "pystr list"
  price_range :: "PriceRange option"
  notify :: "bool option"

record PricePattern =
  pattern :: "pystr option"
  min_value :: "pyfloat option"

record PriceInfo =
  info_value :: pyfloat
  info_currency :: pystr

record MatchResult =
  product_name :: pystr
  matched_keywords :: "pystr list"
  price :: "pyfloat option"
  currency :: "pystr option"
  notify_flag :: bool

text \<open>The object \<^verbatim>\<open>self\<close> after \<^verbatim>\<open>__init__\<close>.\<close>

record ProductMatcher =
  products :: "Product list"
  case_sensitive :: bool
  whole_word :: bool
  regex_enabled :: bool
  price_patterns :: "PricePattern list"
  price_number_regex :: pystr

text \<open>
  \<^verbatim>\<open>__init__\<close>: the defaults of the matching settings, and the default number pattern
  \<^verbatim>\<open>(\d{1,4}(?:[,\s]\d{3})*(?:[.,]\d{1,2})?)\<close> when none (or an empty one) is configured.
\<close>

record Config =
  cfg_products :: "Product list option"
  cfg_case_sensitive :: "bool option"
  cfg_whole_word :: "bool option"
  cfg_regex_enabled :: "bool option"
  cfg_price_patterns :: "PricePattern list option"
  cfg_price_number_regex :: "pystr option"

definition default_price_number_regex :: pystr where
  "default_price_number_regex =
     ascii ''('' @ bslash ''d{1,4}(?:[,'' @ bslash ''s]'' @ bslash ''d{3})*(?:[.,]''
     @ bslash ''d{1,2})?)''"

definition init :: "Config \<Rightarrow> ProductMatcher" where
  "init config =
     \<lparr> products = (case cfg_products config of None \<Rightarrow> [] | Some ps \<Rightarrow> ps),
       case_sensitive = (case cfg_case_sensitive config of None \<Rightarrow> False | Some b \<Rightarrow> b),
       whole_word = (case cfg_whole_word config of None \<Rightarrow> False | Some b \<Rightarrow> b),
       regex_enabled = (case cfg_regex_enabled config of None \<Rightarrow> True | Some b \<Rightarrow> b),
       price_patterns = (case cfg_price_patterns config of None \<Rightarrow> [] | Some ps \<Rightarrow> ps),
       price_number_regex =
         (case cfg_price_number_regex config of
            None \<Rightarrow> default_price_number_regex
          | Some r \<Rightarrow> if r = [] then default_price_number_regex else r) \<rparr>"

subsection \<open>\<^verbatim>\<open>CYRILLIC_TO_LATIN\<close> and \<^verbatim>\<open>_normalize_text\<close>\<close>

text \<open>The table, in the order of the source: thirteen capitals, eight small letters.\<close>

definition CYRILLIC_TO_LATIN :: "(int \<times> int) list" where
  "CYRILLIC_TO_LATIN =
     [(0x410, 65), (0x412, 66), (0x415, 69), (0x41A, 75), (0x41C, 77),
      (0x41D, 72), (0x41E, 79), (0x420, 80), (0x421, 67), (0x422, 84),
      (0x425, 88), (0x423, 89), (0x406, 73),
      (0x430, 97), (0x435, 101), (0x43E, 111), (0x440, 112), (0x441, 99),
      (0x443, 121), (0x445, 120), (0x456, 105)]"

text \<open>\<^verbatim>\<open>CYRILLIC_TO_LATIN.get(char, char)\<close>\<close>

definition table_get :: "int \<Rightarrow> int" where
  "table_get char = (case map_of CYRILLIC_TO_LATIN char of None \<Rightarrow> char | Some v \<Rightarrow> v)"

definition normalize_text :: "pystr \<Rightarrow> pystr" where
  "normalize_text text = map table_get text"

subsection \<open>\<^verbatim>\<open>_parse_price_string\<close>\<close>

text \<open>
  The chain \<^verbatim>\<open>.replace(',', '').replace('.', '').replace(' ', '').replace('\u00a0', '')\<close>.
\<close>

definition remove_separators :: "pystr \<Rightarrow> pystr" where
  "remove_separators s =
     py_replace [0xA0] [] (py_replace [32] [] (py_replace [46] [] (py_replace [44] [] s)))"

text \<open>
  The string handed to \<^verbatim>\<open>float\<close>. The pair is \<^verbatim>\<open>(decimal_sep, decimal_pos)\<close>.
\<close>

definition cleaned_price :: "pylib \<Rightarrow> pystr \<Rightarrow> pystr" where
  "cleaned_price lib price_str =
     (let cleaned = py_strip price_str;
          last_dot_pos = py_rfind 46 cleaned;
          last_comma_pos = py_rfind 44 cleaned;
          (decimal_sep, decimal_pos) =
            (if last_dot_pos > last_comma_pos then
               (let after_dot = drop (nat (last_dot_pos + 1)) cleaned
                in if 1 \<le> length after_dot \<and> length after_dot \<le> 2 \<and> str_isdigit lib after_dot
                   then (Some (46 :: int), last_dot_pos) else (None, - 1))
             else if last_comma_pos > last_dot_pos then
               (let after_comma = drop (nat (last_comma_pos + 1)) cleaned
                in if 1 \<le> length after_comma \<and> length after_comma \<le> 2
                      \<and> str_isdigit lib after_comma
                   then (Some 44, last_comma_pos) else (None, - 1))
             else (None, - 1))
      in if decimal_sep \<noteq> None \<and> decimal_pos > 0 then
           (let int_part = take (nat decimal_pos) cleaned;
                dec_part = drop (nat (decimal_pos + 1)) cleaned
            in remove_separators int_part @ [46] @ dec_part)
         else remove_separators cleaned)"

text \<open>
  \<^verbatim>\<open>return float(cleaned)\<close> under \<^verbatim>\<open>except (ValueError, AttributeError)\<close>: these two
  give \<open>None\<close>, any other exception propagates.
\<close>

definition float_or_none :: "pylib \<Rightarrow> pystr \<Rightarrow> py_exn + pyfloat option" where
  "float_or_none lib cleaned =
     (case float_of lib cleaned of
        Inl e \<Rightarrow> if e = ValueError \<or> e = AttributeError then Inr None else Inl e
      | Inr v \<Rightarrow> Inr (Some v))"

text \<open>
  The argument is \<open>None\<close> when the capturing group took no part in the match: then
  \<^verbatim>\<open>price_str.strip()\<close> raises \<^verbatim>\<open>AttributeError\<close>, which the function catches.
\<close>

definition parse_price_string :: "pylib \<Rightarrow> pystr option \<Rightarrow> py_exn + pyfloat option" where
  "parse_price_string lib price_str =
     (case price_str of
        None \<Rightarrow> Inr None
      | Some s \<Rightarrow> float_or_none lib (cleaned_price lib s))"

subsection \<open>\<^verbatim>\<open>_detect_currency\<close>\<close>

definition euro :: pystr where "euro = [0x20AC]"
definition dollar :: pystr where "dollar = [36]"
definition evro_word :: pystr where "evro_word = [0x435, 0x432, 0x440, 0x43E]"
definition dollar_word_ru :: pystr where
  "dollar_word_ru = [0x434, 0x43E, 0x43B, 0x43B, 0x430, 0x440]"

definition detect_currency :: "pylib \<Rightarrow> pystr \<Rightarrow> pystr" where
  "detect_currency lib matched_text =
     (if py_in euro matched_text \<or> py_in (ascii ''EUR'') (str_upper lib matched_text)
         \<or> py_in evro_word (str_lower lib matched_text)
      then euro
      else if py_in dollar matched_text \<or> py_in (ascii ''USD'') (str_upper lib matched_text)
         \<or> py_in (ascii ''dollar'') (str_lower lib matched_text)
         \<or> py_in dollar_word_ru (str_lower lib matched_text)
      then dollar
      else [])"

subsection \<open>\<^verbatim>\<open>_extract_price\<close>\<close>

text \<open>
  The loop over the patterns. The \<^verbatim>\<open>try\<close> block catches \<^verbatim>\<open>IndexError\<close> (the pattern
  has no group 1), \<^verbatim>\<open>ValueError\<close> and \<^verbatim>\<open>re.error\<close>, and goes on with the next pattern.
  \<^verbatim>\<open>price >= min_value\<close> is \<open>float_le min_value price\<close>.
\<close>

definition caught_by_extract :: "py_exn \<Rightarrow> bool" where
  "caught_by_extract e = (e = IndexError \<or> e = ValueError \<or> e = ReError)"

fun extract_loop :: "pylib \<Rightarrow> pystr \<Rightarrow> pystr \<Rightarrow> PricePattern list \<Rightarrow> py_exn + PriceInfo option" where
  "extract_loop lib price_regex text [] = Inr None"
| "extract_loop lib price_regex text (pattern_config # rest) =
     (case pattern pattern_config of
        None \<Rightarrow> extract_loop lib price_regex text rest
      | Some pattern_template \<Rightarrow>
          if pattern_template = [] then extract_loop lib price_regex text rest
          else
            (case re_search lib True
                    (py_replace (ascii ''{price}'') price_regex pattern_template) text of
               Inl e \<Rightarrow>
                 if caught_by_extract e then extract_loop lib price_regex text rest else Inl e
             | Inr None \<Rightarrow> extract_loop lib price_regex text rest
             | Inr (Some m) \<Rightarrow>
                 (case groups m of
                    [] \<Rightarrow> extract_loop lib price_regex text rest
                  | price_str # _ \<Rightarrow>
                      (case parse_price_string lib price_str of
                         Inl e \<Rightarrow>
                           if caught_by_extract e then extract_loop lib price_regex text rest
                           else Inl e
                       | Inr None \<Rightarrow> extract_loop lib price_regex text rest
                       | Inr (Some price_val) \<Rightarrow>
                           if float_le (case min_value pattern_config of
                                          None \<Rightarrow> Finite 0 | Some v \<Rightarrow> v) price_val
                           then Inr (Some \<lparr> info_value = price_val,
                                            info_currency = detect_currency lib (group0 m) \<rparr>)
                           else extract_loop lib price_regex text rest))))"

definition extract_price :: "pylib \<Rightarrow> ProductMatcher \<Rightarrow> pystr \<Rightarrow> py_exn + PriceInfo option" where
  "extract_price lib self text =
     (if price_patterns self = [] then Inr None
      else extract_loop lib (price_number_regex self) text (price_patterns self))"

subsection \<open>\<^verbatim>\<open>_match_keyword\<close>\<close>

definition word_boundary :: pystr where
  "word_boundary = bslash ''b''"

text \<open>The part after the \<^verbatim>\<open>try\<close>: "simple string matching".\<close>

definition simple_match :: "pylib \<Rightarrow> ProductMatcher \<Rightarrow> pystr \<Rightarrow> pystr \<Rightarrow> py_exn + bool" where
  "simple_match lib self text keyword_normalized =
     (if whole_word self then
        (case re_search lib False
                (word_boundary @ re_escape keyword_normalized @ word_boundary) text of
           Inl e \<Rightarrow> Inl e
         | Inr m \<Rightarrow> Inr (m \<noteq> None))
      else Inr (py_in keyword_normalized text))"

definition match_keyword :: "pylib \<Rightarrow> ProductMatcher \<Rightarrow> pystr \<Rightarrow> pystr \<Rightarrow> py_exn + bool" where
  "match_keyword lib self text keyword =
     (let keyword_normalized = normalize_text keyword;
          keyword_normalized =
            (if case_sensitive self then keyword_normalized
             else str_lower lib keyword_normalized)
      in if regex_enabled self then
           (case re_search lib False
                   (if whole_word self then word_boundary @ keyword_normalized @ word_boundary
                    else keyword_normalized) text of
              Inr m \<Rightarrow> Inr (m \<noteq> None)
            | Inl e \<Rightarrow>
                if e = ReError then simple_match lib self text keyword_normalized else Inl e)
         else simple_match lib self text keyword_normalized)"

subsection \<open>\<^verbatim>\<open>_match_product\<close> and \<^verbatim>\<open>match_message\<close>\<close>

text \<open>The two keyword loops: the first collects, the second returns at the first match.\<close>

fun collect_keywords :: "pylib \<Rightarrow> ProductMatcher \<Rightarrow> pystr \<Rightarrow> pystr list \<Rightarrow> py_exn + pystr list" where
  "collect_keywords lib self text [] = Inr []"
| "collect_keywords lib self text (keyword # rest) =
     (case match_keyword lib self text keyword of
        Inl e \<Rightarrow> Inl e
      | Inr hit \<Rightarrow>
          (case collect_keywords lib self text rest of
             Inl e \<Rightarrow> Inl e
           | Inr found \<Rightarrow> Inr (if hit then keyword # found else found)))"

fun any_excluded :: "pylib \<Rightarrow> ProductMatcher \<Rightarrow> pystr \<Rightarrow> pystr list \<Rightarrow> py_exn + bool" where
  "any_excluded lib self text [] = Inr False"
| "any_excluded lib self text (exclude_keyword # rest) =
     (case match_keyword lib self text exclude_keyword of
        Inl e \<Rightarrow> Inl e
      | Inr hit \<Rightarrow> if hit then Inr True else any_excluded lib self text rest)"

text \<open>
  \<^verbatim>\<open>if price_range:\<close> holds for a dictionary that is present and not empty; the
  result is that dictionary.
\<close>

definition truthy_range :: "PriceRange option \<Rightarrow> PriceRange option" where
  "truthy_range r =
     (case r of
        None \<Rightarrow> None
      | Some d \<Rightarrow> if range_min d \<noteq> None \<or> range_max d \<noteq> None then Some d else None)"

text \<open>
  \<^verbatim>\<open>min_price <= price_match <= max_price\<close> with \<^verbatim>\<open>min\<close> defaulting to 0 and
  \<^verbatim>\<open>max\<close> to \<^verbatim>\<open>float('inf')\<close>.
\<close>

definition in_range :: "PriceRange \<Rightarrow> pyfloat \<Rightarrow> bool" where
  "in_range d price_match =
     (float_le (case range_min d of None \<Rightarrow> Finite 0 | Some lo \<Rightarrow> lo) price_match
      \<and> float_le price_match (case range_max d of None \<Rightarrow> PosInf | Some hi \<Rightarrow> hi))"

definition match_info :: "Product \<Rightarrow> pystr list \<Rightarrow> pyfloat option \<Rightarrow> pystr option \<Rightarrow> MatchResult" where
  "match_info product found price_match cur =
     \<lparr> product_name = (case name product of None \<Rightarrow> ascii ''Unknown'' | Some n \<Rightarrow> n),
       matched_keywords = found,
       price = price_match,
       currency = cur,
       notify_flag = (case notify product of None \<Rightarrow> True | Some b \<Rightarrow> b) \<rparr>"

text \<open>
  The first two statements of \<^verbatim>\<open>_match_product\<close>: the text handed to the keyword
  matcher.
\<close>

definition prepared_text :: "pylib \<Rightarrow> ProductMatcher \<Rightarrow> pystr \<Rightarrow> pystr" where
  "prepared_text lib self message_text =
     (let normalized_text = normalize_text message_text
      in if case_sensitive self then normalized_text else str_lower lib normalized_text)"

definition match_product :: "pylib \<Rightarrow> ProductMatcher \<Rightarrow> pystr \<Rightarrow> Product \<Rightarrow> py_exn + MatchResult option" where
  "match_product lib self message_text product =
     (let text = prepared_text lib self message_text
      in case collect_keywords lib self text (keywords' product) of
           Inl e \<Rightarrow> Inl e
         | Inr found \<Rightarrow>
             if found = [] then Inr None
             else
               (case any_excluded lib self text (exclude_keywords product) of
                  Inl e \<Rightarrow> Inl e
                | Inr excluded \<Rightarrow>
                    if excluded then Inr None
                    else
                      (case truthy_range (price_range product) of
                         None \<Rightarrow> Inr (Some (match_info product found None None))
                       | Some price_rng \<Rightarrow>
                           (case extract_price lib self message_text of
                              Inl e \<Rightarrow> Inl e
                            | Inr None \<Rightarrow> Inr (Some (match_info product found None None))
                            | Inr (Some price_info) \<Rightarrow>
                                if in_range price_rng (info_value price_info)
                                then Inr (Some (match_info product found
                                       (Some (info_value price_info))
                                       (Some (info_currency price_info))))
                                else Inr None))))"

fun match_loop :: "pylib \<Rightarrow> ProductMatcher \<Rightarrow> pystr \<Rightarrow> Product list \<Rightarrow> py_exn + MatchResult list" where
  "match_loop lib self message_text [] = Inr []"
| "match_loop lib self message_text (product # rest) =
     (case match_product lib self message_text product of
        Inl e \<Rightarrow> Inl e
      | Inr r \<Rightarrow>
          (case match_loop lib self message_text rest of
             Inl e \<Rightarrow> Inl e
           | Inr matched_products \<Rightarrow>
               Inr (case r of None \<Rightarrow> matched_products | Some mi \<Rightarrow> mi # matched_products)))"

definition match_message :: "pylib \<Rightarrow> ProductMatcher \<Rightarrow> pystr \<Rightarrow> py_exn + MatchResult list" where
  "match_message lib self message_text =
     (if message_text = [] then Inr []
      else match_loop lib self message_text (products self))"

section \<open>A reference library\<close>

text \<open>
  To run the module on concrete messages the library is instantiated by \<open>reference\<close>.
  Its functions are exact on strings of ASCII characters, the Cyrillic letters U+0400 to
  U+045F and characters without case or digit value such as the euro sign, which is all
  the concrete runs below use. Where it does not model Python it says so (\<open>OtherError\<close>)
  whenever its result type allows.
\<close>

subsection \<open>Case, digits and \<^verbatim>\<open>float\<close>\<close>

text \<open>
  The simple case pairs of Basic Latin and of the Cyrillic letters U+0400 to U+045F;
  every other code point is left unchanged.
\<close>

definition chr_lower :: "int \<Rightarrow> int" where
  "chr_lower c =
     (if 65 \<le> c \<and> c \<le> 90 then c + 32
      else if 0x410 \<le> c \<and> c \<le> 0x42F then c + 32
      else if 0x400 \<le> c \<and> c \<le> 0x40F then c + 80
      else c)"

definition chr_upper :: "int \<Rightarrow> int" where
  "chr_upper c =
     (if 97 \<le> c \<and> c \<le> 122 then c - 32
      else if 0x430 \<le> c \<and> c \<le> 0x44F then c - 32
      else if 0x450 \<le> c \<and> c \<le> 0x45F then c - 80
      else c)"

text \<open>The ASCII digits.\<close>

definition chr_isdigit :: "int \<Rightarrow> bool" where
  "chr_isdigit c = (48 \<le> c \<and> c \<le> 57)"

definition ref_isdigit :: "pystr \<Rightarrow> bool" where
  "ref_isdigit s = (s \<noteq> [] \<and> list_all chr_isdigit s)"

definition digits_value :: "pystr \<Rightarrow> int" where
  "digits_value ds = foldl (\<lambda>a c. 10 * a + (c - 48)) 0 ds"

text \<open>
  The double nearest to a rational \<open>q \<ge> 0\<close>, ties to even, as \<^verbatim>\<open>float\<close> rounds a
  decimal literal: 53 bits of mantissa, subnormals spaced by 2 to the power -1074, infinity from
  2 to the power 1024 on.
\<close>

function bit_length :: "int \<Rightarrow> int" where
  "bit_length n = (if n \<le> 0 then 0 else 1 + bit_length (n div 2))"
  by pat_completeness auto
termination
  by (relation "measure nat") auto

text \<open>2 to the power \<open>e\<close>, and 1 for a negative \<open>e\<close>.\<close>

function two_pow :: "int \<Rightarrow> int" where
  "two_pow e = (if e \<le> 0 then 1 else 2 * two_pow (e - 1))"
  by pat_completeness auto
termination
  by (relation "measure nat") auto

text \<open>The integer nearest to \<open>n / d\<close>, ties to even.\<close>

definition round_half_even :: "int \<Rightarrow> int \<Rightarrow> int" where
  "round_half_even n d =
     (let f = n div d; r = n mod d
      in if 2 * r < d then f else if d < 2 * r then f + 1 else if even f then f else f + 1)"

definition nearest_double :: "rat \<Rightarrow> pyfloat" where
  "nearest_double q =
     (if q = 0 then Finite 0
      else
        (let (a, b) = quotient_of q;
             e0 = bit_length a - bit_length b;
             floor_log2 = (if two_pow e0 * b \<le> a * two_pow (- e0) then e0 else e0 - 1);
             e = max (floor_log2 - 52) (- 1074);
             m = round_half_even (a * two_pow (- e)) (b * two_pow e)
         in if 1024 < bit_length m + e then PosInf
            else Finite (of_int (m * two_pow e) / of_int (two_pow (- e)))))"

text \<open>
  \<^verbatim>\<open>float(s)\<close> on ASCII strings without letters and underscores: optional surrounding
  whitespace, an optional sign, digits with at most one point; anything else of that
  alphabet is a \<^verbatim>\<open>ValueError\<close>. Letters, underscores and other code points (exponents,
  \<^verbatim>\<open>inf\<close>, \<^verbatim>\<open>nan\<close>, digit grouping, digits of other scripts) are not modelled.
\<close>

definition plain_char :: "int \<Rightarrow> bool" where
  "plain_char c =
     (0 \<le> c \<and> c \<le> 127 \<and> \<not> (65 \<le> c \<and> c \<le> 90) \<and> \<not> (97 \<le> c \<and> c \<le> 122) \<and> c \<noteq> 95)"

definition unsigned_float :: "pystr \<Rightarrow> py_exn + pyfloat" where
  "unsigned_float u =
     (let ip = takeWhile chr_isdigit u; rest = dropWhile chr_isdigit u
      in case rest of
           [] \<Rightarrow> if ip = [] then Inl ValueError
                 else Inr (nearest_double (of_int (digits_value ip)))
         | d # fp \<Rightarrow>
             if d = 46 \<and> list_all chr_isdigit fp \<and> (ip \<noteq> [] \<or> fp \<noteq> [])
             then Inr (nearest_double
                         (of_int (digits_value ip) + of_int (digits_value fp) / 10 ^ length fp))
             else Inl ValueError)"

definition float_neg :: "pyfloat \<Rightarrow> pyfloat" where
  "float_neg x =
     (case x of Finite v \<Rightarrow> Finite (- v) | PosInf \<Rightarrow> NegInf | NegInf \<Rightarrow> PosInf | NaN \<Rightarrow> NaN)"

definition ref_float :: "pystr \<Rightarrow> py_exn + pyfloat" where
  "ref_float s =
     (let t = py_strip s
      in if \<not> list_all plain_char t then Inl OtherError
         else
           (case t of
              [] \<Rightarrow> Inl ValueError
            | c # r \<Rightarrow>
                if c = 45 then map_sum id float_neg (unsigned_float r)
                else if c = 43 then unsigned_float r
                else unsigned_float t))"

subsection \<open>\<^verbatim>\<open>re.search\<close>\<close>

text \<open>
  \<open>ref_search\<close> implements the part of Python's pattern language the configured
  patterns use: literals, \<^verbatim>\<open>.\<close>, the classes \<^verbatim>\<open>\d \s \w\<close> and their complements,
  sets, \<^verbatim>\<open>\b\<close>, \<^verbatim>\<open>^\<close>, \<^verbatim>\<open>$\<close>, groups, alternation and greedy repetition, with
  leftmost-first backtracking. A malformed pattern is \<open>ReError\<close>, a repetition count of
  4294967295 or more is \<open>OverflowError\<close>, and a construct outside this part (look-around,
  back-references, lazy and possessive repetition, repetition of a pattern that can match
  the empty string, flags, other escapes of letters, parentheses nested deeper than 100)
  is \<open>OtherError\<close>. Word characters are the ASCII ones and the Cyrillic letters.
\<close>

datatype char_class = Digit | Space | Word

datatype set_item = Single int | Range int int | Class char_class | NotClass char_class

datatype regex =
    Lit int | AnyChar | InSet bool "set_item list"
  | Boundary | Bol | Eol
  | Empty | Seq regex regex | Alt regex regex
  | Repeat regex nat "nat option"
  | Group nat regex

definition chr_isword :: "int \<Rightarrow> bool" where
  "chr_isword c =
     (chr_isdigit c \<or> (65 \<le> c \<and> c \<le> 90) \<or> (97 \<le> c \<and> c \<le> 122) \<or> c = 95
      \<or> (0x400 \<le> c \<and> c \<le> 0x45F))"

fun class_ok :: "char_class \<Rightarrow> int \<Rightarrow> bool" where
  "class_ok Digit c = chr_isdigit c"
| "class_ok Space c = chr_isspace c"
| "class_ok Word c = chr_isword c"

fun item_ok :: "set_item \<Rightarrow> int \<Rightarrow> bool" where
  "item_ok (Single a) c = (c = a)"
| "item_ok (Range a b) c = (a \<le> c \<and> c \<le> b)"
| "item_ok (Class k) c = class_ok k c"
| "item_ok (NotClass k) c = (\<not> class_ok k c)"

definition set_ok :: "bool \<Rightarrow> bool \<Rightarrow> set_item list \<Rightarrow> int \<Rightarrow> bool" where
  "set_ok ic negated items c =
     (list_ex (\<lambda>it. item_ok it c \<or> (ic \<and> (item_ok it (chr_lower c) \<or> item_ok it (chr_upper c)))) items
      \<noteq> negated)"

definition lit_ok :: "bool \<Rightarrow> int \<Rightarrow> int \<Rightarrow> bool" where
  "lit_ok ic l c = (c = l \<or> (ic \<and> chr_lower c = chr_lower l))"

text \<open>
  A matcher state: the position, whether the character before it is a word character,
  the text still to read, and the spans of the groups closed so far (latest first).
\<close>

type_synonym mstate = "nat \<times> bool \<times> pystr \<times> (nat \<times> nat \<times> nat) list"

definition pos :: "mstate \<Rightarrow> nat" where
  "pos s = fst s"

definition advance :: "(int \<Rightarrow> bool) \<Rightarrow> mstate \<Rightarrow> mstate list" where
  "advance ok s =
     (case s of (i, w, txt, caps) \<Rightarrow>
        (case txt of
           [] \<Rightarrow> []
         | c # cs \<Rightarrow> if ok c then [(Suc i, chr_isword c, cs, caps)] else []))"

definition at_boundary :: "mstate \<Rightarrow> bool" where
  "at_boundary s =
     (case s of (i, w, txt, caps) \<Rightarrow>
        w \<noteq> (case txt of [] \<Rightarrow> False | c # _ \<Rightarrow> chr_isword c))"

definition at_end :: "mstate \<Rightarrow> bool" where
  "at_end s = (case s of (i, w, txt, caps) \<Rightarrow> txt = [] \<or> txt = [10])"

definition close_group :: "nat \<Rightarrow> nat \<Rightarrow> mstate \<Rightarrow> mstate" where
  "close_group n start s = (case s of (i, w, txt, caps) \<Rightarrow> (i, w, txt, (n, start, i) # caps))"

fun iterate :: "(mstate \<Rightarrow> mstate list) \<Rightarrow> nat \<Rightarrow> nat \<Rightarrow> mstate \<Rightarrow> mstate list" where
  "iterate step lo 0 (i, w, txt, caps) = (if lo = 0 then [(i, w, txt, caps)] else [])"
| "iterate step lo (Suc hi) (i, w, txt, caps) =
     concat (map (iterate step (lo - 1) hi)
                 (filter (\<lambda>s'. 0 < lo \<or> i < pos s') (step (i, w, txt, caps))))
     @ (if lo = 0 then [(i, w, txt, caps)] else [])"

lemma iterate_cong [fundef_cong]:
  "(\<And>s. f s = g s) \<Longrightarrow> iterate f lo hi s = iterate g lo hi s"
proof -
  assume "\<And>s. f s = g s"
  then have "f = g" by auto
  then show ?thesis by simp
qed

fun run :: "bool \<Rightarrow> regex \<Rightarrow> mstate \<Rightarrow> mstate list" where
  "run ic (Lit l) (i, w, txt, caps) = advance (lit_ok ic l) (i, w, txt, caps)"
| "run ic AnyChar (i, w, txt, caps) = advance (\<lambda>c. c \<noteq> 10) (i, w, txt, caps)"
| "run ic (InSet negated items) (i, w, txt, caps) =
     advance (set_ok ic negated items) (i, w, txt, caps)"
| "run ic Boundary (i, w, txt, caps) =
     (if at_boundary (i, w, txt, caps) then [(i, w, txt, caps)] else [])"
| "run ic Bol (i, w, txt, caps) = (if i = 0 then [(i, w, txt, caps)] else [])"
| "run ic Eol (i, w, txt, caps) = (if at_end (i, w, txt, caps) then [(i, w, txt, caps)] else [])"
| "run ic Empty (i, w, txt, caps) = [(i, w, txt, caps)]"
| "run ic (Seq a b) (i, w, txt, caps) =
     concat (map (\<lambda>s'. run ic b s') (run ic a (i, w, txt, caps)))"
| "run ic (Alt a b) (i, w, txt, caps) = run ic a (i, w, txt, caps) @ run ic b (i, w, txt, caps)"
| "run ic (Repeat a lo hi) (i, w, txt, caps) =
     iterate (\<lambda>s'. run ic a s') lo (case hi of None \<Rightarrow> lo + length txt | Some h \<Rightarrow> h)
       (i, w, txt, caps)"
| "run ic (Group n a) (i, w, txt, caps) = map (close_group n i) (run ic a (i, w, txt, caps))"

text \<open>One character of a set, or one escape.\<close>

definition escape_class :: "int \<Rightarrow> set_item option" where
  "escape_class c =
     (if c = 100 then Some (Class Digit) else if c = 115 then Some (Class Space)
      else if c = 119 then Some (Class Word) else if c = 68 then Some (NotClass Digit)
      else if c = 83 then Some (NotClass Space) else if c = 87 then Some (NotClass Word)
      else None)"

definition escape_control :: "int \<Rightarrow> int option" where
  "escape_control c =
     (if c = 110 then Some 10 else if c = 116 then Some 9 else if c = 114 then Some 13
      else if c = 102 then Some 12 else if c = 118 then Some 11 else if c = 97 then Some 7
      else None)"

definition ascii_alnum :: "int \<Rightarrow> bool" where
  "ascii_alnum c = (chr_isdigit c \<or> (65 \<le> c \<and> c \<le> 90) \<or> (97 \<le> c \<and> c \<le> 122))"

fun set_atom :: "pystr \<Rightarrow> py_exn + (set_item \<times> pystr)" where
  "set_atom [] = Inl ReError"
| "set_atom [c] = (if c = 92 then Inl ReError else Inr (Single c, []))"
| "set_atom (c # d # r) =
     (if c = 92 then
        (case escape_class d of
           Some k \<Rightarrow> Inr (k, r)
         | None \<Rightarrow>
             (case escape_control d of
                Some x \<Rightarrow> Inr (Single x, r)
              | None \<Rightarrow>
                  if d = 98 then Inr (Single 8, r)
                  else if ascii_alnum d then Inl OtherError
                  else Inr (Single d, r)))
      else Inr (Single c, d # r))"

fun parse_set :: "nat \<Rightarrow> bool \<Rightarrow> pystr \<Rightarrow> py_exn + (set_item list \<times> pystr)" where
  "parse_set 0 first s = Inl OtherError"
| "parse_set (Suc f) first s =
     (case s of
        [] \<Rightarrow> Inl ReError
      | c # r \<Rightarrow>
          if c = 93 \<and> \<not> first then Inr ([], r)
          else
            (case set_atom s of
               Inl e \<Rightarrow> Inl e
             | Inr (it, r1) \<Rightarrow>
                 (case (it, r1) of
                    (Single a, m # h # r2) \<Rightarrow>
                      if m = 45 \<and> h \<noteq> 93 then
                        (case set_atom (h # r2) of
                           Inl e \<Rightarrow> Inl e
                         | Inr (Single b, r3) \<Rightarrow>
                             if a \<le> b then
                               (case parse_set f False r3 of
                                  Inl e \<Rightarrow> Inl e
                                | Inr (its, r4) \<Rightarrow> Inr (Range a b # its, r4))
                             else Inl ReError
                         | Inr (_, r3) \<Rightarrow> Inl ReError)
                      else
                        (case parse_set f False r1 of
                           Inl e \<Rightarrow> Inl e
                         | Inr (its, r4) \<Rightarrow> Inr (it # its, r4))
                  | (_, m # h # r2) \<Rightarrow>
                      if m = 45 \<and> h \<noteq> 93 then Inl ReError
                      else
                        (case parse_set f False r1 of
                           Inl e \<Rightarrow> Inl e
                         | Inr (its, r4) \<Rightarrow> Inr (it # its, r4))
                  | _ \<Rightarrow>
                      (case parse_set f False r1 of
                         Inl e \<Rightarrow> Inl e
                       | Inr (its, r4) \<Rightarrow> Inr (it # its, r4)))))"

text \<open>
  A counted repetition \<open>{m}\<close>, \<open>{m,}\<close>, \<open>{,n}\<close>, \<open>{m,n}\<close> after the brace: the two counts
  and the rest. Braces that are no repetition are literal text.
\<close>

definition parse_count :: "pystr \<Rightarrow> (int \<times> int option \<times> pystr) option" where
  "parse_count s =
     (let lo = takeWhile chr_isdigit s; r = dropWhile chr_isdigit s
      in case r of
           [] \<Rightarrow> None
         | c # r1 \<Rightarrow>
             if c = 125 then
               (if lo = [] then None else Some (digits_value lo, Some (digits_value lo), r1))
             else if c = 44 then
               (let hi = takeWhile chr_isdigit r1; r2 = dropWhile chr_isdigit r1
                in case r2 of
                     [] \<Rightarrow> None
                   | e # r3 \<Rightarrow>
                       if e = 125 then
                         Some (digits_value lo, if hi = [] then None else Some (digits_value hi), r3)
                       else None)
             else None)"

text \<open>The repetition after an atom, if any.\<close>

definition quantifier :: "pystr \<Rightarrow> (int \<times> int option \<times> pystr) option" where
  "quantifier s =
     (case s of
        [] \<Rightarrow> None
      | c # r \<Rightarrow>
          if c = 42 then Some (0, None, r)
          else if c = 43 then Some (1, None, r)
          else if c = 63 then Some (0, Some 1, r)
          else if c = 123 then parse_count r
          else None)"

text \<open>
  A count of \<^verbatim>\<open>MAXREPEAT\<close> (4294967295) or more raises \<^verbatim>\<open>OverflowError\<close>, before
  any other check of the repetition.
\<close>

definition count_overflow :: "int \<Rightarrow> int option \<Rightarrow> bool" where
  "count_overflow lo hi =
     (4294967295 \<le> lo \<or> (case hi of None \<Rightarrow> False | Some h \<Rightarrow> 4294967295 \<le> h))"

definition repeatable :: "regex \<Rightarrow> bool" where
  "repeatable a = (a \<noteq> Boundary \<and> a \<noteq> Bol \<and> a \<noteq> Eol)"

text \<open>
  Whether a pattern can match the empty string. Python has rules of its own for repeating
  such a pattern; the engine does not model them.
\<close>

fun nullable :: "regex \<Rightarrow> bool" where
  "nullable (Lit l) = False"
| "nullable AnyChar = False"
| "nullable (InSet negated items) = False"
| "nullable Boundary = True"
| "nullable Bol = True"
| "nullable Eol = True"
| "nullable Empty = True"
| "nullable (Seq a b) = (nullable a \<and> nullable b)"
| "nullable (Alt a b) = (nullable a \<or> nullable b)"
| "nullable (Repeat a lo hi) = (lo = 0 \<or> nullable a)"
| "nullable (Group n a) = nullable a"

definition quantified :: "regex \<Rightarrow> nat \<Rightarrow> pystr \<Rightarrow> py_exn + (regex \<times> nat \<times> pystr)" where
  "quantified a n s =
     (case quantifier s of
        None \<Rightarrow> Inr (a, n, s)
      | Some (lo, hi, r) \<Rightarrow>
          if count_overflow lo hi then Inl OverflowError
          else if (case hi of None \<Rightarrow> False | Some h \<Rightarrow> h < lo) then Inl ReError
          else if \<not> repeatable a then Inl ReError
          else if nullable a then Inl OtherError
          else
            (case r of
               [] \<Rightarrow> Inr (Repeat a (nat lo) (map_option nat hi), n, r)
             | c # _ \<Rightarrow>
                 if c = 63 \<or> c = 43 then Inl OtherError
                 else if quantifier r \<noteq> None then Inl ReError
                 else Inr (Repeat a (nat lo) (map_option nat hi), n, r)))"

fun parse_alt :: "nat \<Rightarrow> nat \<Rightarrow> pystr \<Rightarrow> py_exn + (regex \<times> nat \<times> pystr)"
and parse_seq :: "nat \<Rightarrow> nat \<Rightarrow> pystr \<Rightarrow> py_exn + (regex \<times> nat \<times> pystr)"
and parse_atom :: "nat \<Rightarrow> nat \<Rightarrow> pystr \<Rightarrow> py_exn + (regex \<times> nat \<times> pystr)" where
  "parse_alt 0 n s = Inl OtherError"
| "parse_alt (Suc f) n s =
     (case parse_seq f n s of
        Inl e \<Rightarrow> Inl e
      | Inr (a, n1, r) \<Rightarrow>
          (case r of
             [] \<Rightarrow> Inr (a, n1, r)
           | c # r1 \<Rightarrow>
               if c = 124 then
                 (case parse_alt f n1 r1 of
                    Inl e \<Rightarrow> Inl e
                  | Inr (b, n2, r2) \<Rightarrow> Inr (Alt a b, n2, r2))
               else Inr (a, n1, r)))"
| "parse_seq 0 n s = Inl OtherError"
| "parse_seq (Suc f) n s =
     (case s of
        [] \<Rightarrow> Inr (Empty, n, s)
      | c # _ \<Rightarrow>
          if c = 124 \<or> c = 41 then Inr (Empty, n, s)
          else
            (case parse_atom f n s of
               Inl e \<Rightarrow> Inl e
             | Inr (a, n1, r) \<Rightarrow>
                 (case quantified a n1 r of
                    Inl e \<Rightarrow> Inl e
                  | Inr (q, n2, r2) \<Rightarrow>
                      (case parse_seq f n2 r2 of
                         Inl e \<Rightarrow> Inl e
                       | Inr (b, n3, r3) \<Rightarrow> Inr (if b = Empty then q else Seq q b, n3, r3)))))"
| "parse_atom 0 n s = Inl OtherError"
| "parse_atom (Suc f) n [] = Inl OtherError"
| "parse_atom (Suc f) n (c # r) =
     (if c = 40 then
        (case r of
           [] \<Rightarrow> Inl ReError
         | q # r1 \<Rightarrow>
             if q = 63 then
               (case r1 of
                  [] \<Rightarrow> Inl ReError
                | k # r2 \<Rightarrow>
                    if k = 58 then
                      (case parse_alt f n r2 of
                         Inl e \<Rightarrow> Inl e
                       | Inr (a, n1, r3) \<Rightarrow>
                           (case r3 of
                              [] \<Rightarrow> Inl ReError
                            | _ # r4 \<Rightarrow> Inr (a, n1, r4)))
                    else Inl OtherError)
             else
               (case parse_alt f (Suc n) r of
                  Inl e \<Rightarrow> Inl e
                | Inr (a, n1, r3) \<Rightarrow>
                    (case r3 of
                       [] \<Rightarrow> Inl ReError
                     | _ # r4 \<Rightarrow> Inr (Group n a, n1, r4))))
      else if c = 91 then
        (case r of
           [] \<Rightarrow> Inl ReError
         | h # r1 \<Rightarrow>
             (case parse_set (Suc (length r)) True (if h = 94 then r1 else r) of
                Inl e \<Rightarrow> Inl e
              | Inr (its, r2) \<Rightarrow> Inr (InSet (h = 94) its, n, r2)))
      else if c = 92 then
        (case r of
           [] \<Rightarrow> Inl ReError
         | d # r1 \<Rightarrow>
             (case escape_class d of
                Some k \<Rightarrow> Inr (InSet False [k], n, r1)
              | None \<Rightarrow>
                  (case escape_control d of
                     Some x \<Rightarrow> Inr (Lit x, n, r1)
                   | None \<Rightarrow>
                       if d = 98 then Inr (Boundary, n, r1)
                       else if ascii_alnum d then Inl OtherError
                       else Inr (Lit d, n, r1))))
      else if c = 46 then Inr (AnyChar, n, r)
      else if c = 94 then Inr (Bol, n, r)
      else if c = 36 then Inr (Eol, n, r)
      else if c = 42 \<or> c = 43 \<or> c = 63 then Inl ReError
      else if c = 123 then
        (case parse_count r of
           None \<Rightarrow> Inr (Lit c, n, r)
         | Some (lo, hi, _) \<Rightarrow> if count_overflow lo hi then Inl OverflowError else Inl ReError)
      else Inr (Lit c, n, r))"

text \<open>
  The deepest nesting of parentheses in a pattern, a backslash hiding the character after
  it. Python's parser is recursive and raises \<^verbatim>\<open>RecursionError\<close> at a depth that
  depends on the state of the interpreter; the engine does not model patterns nested
  deeper than 100.
\<close>

fun nesting :: "pystr \<Rightarrow> int \<Rightarrow> int \<Rightarrow> int" where
  "nesting [] d m = m"
| "nesting (c # r) d m =
     (if c = 92 then nesting (tl r) d m
      else if c = 40 then nesting r (d + 1) (max m (d + 1))
      else if c = 41 then nesting r (d - 1) m
      else nesting r d m)"

definition re_compile :: "pystr \<Rightarrow> py_exn + (regex \<times> nat)" where
  "re_compile p =
     (if 100 < nesting p 0 0 then Inl OtherError
      else
        (case parse_alt (3 * length p + 3) 1 p of
           Inl e \<Rightarrow> Inl e
         | Inr (a, n, r) \<Rightarrow> if r = [] then Inr (a, n - 1) else Inl ReError))"

text \<open>The leftmost start at which the pattern matches, and the first way it matches there.\<close>

fun first_match :: "bool \<Rightarrow> regex \<Rightarrow> mstate \<Rightarrow> (nat \<times> mstate) option" where
  "first_match ic a (i, w, txt, caps) =
     (case run ic a (i, w, txt, caps) of
        s # _ \<Rightarrow> Some (i, s)
      | [] \<Rightarrow>
          (case txt of
             [] \<Rightarrow> None
           | c # cs \<Rightarrow> first_match ic a (Suc i, chr_isword c, cs, caps)))"

definition text_between :: "pystr \<Rightarrow> nat \<Rightarrow> nat \<Rightarrow> pystr" where
  "text_between txt i j = take (j - i) (drop i txt)"

definition ref_search :: "bool \<Rightarrow> pystr \<Rightarrow> pystr \<Rightarrow> py_exn + re_match option" where
  "ref_search ic p txt =
     (case re_compile p of
        Inl e \<Rightarrow> Inl e
      | Inr (a, ngroups) \<Rightarrow>
          Inr (case first_match ic a (0, False, txt, []) of
                 None \<Rightarrow> None
               | Some (i, s) \<Rightarrow>
                   Some \<lparr> group0 = text_between txt i (pos s),
                          groups = map (\<lambda>n. map_option (\<lambda>(b, e). text_between txt b e)
                                                (map_of (case s of (j, w, r, caps) \<Rightarrow> caps) n))
                                     [1..<Suc ngroups] \<rparr>))"

definition reference :: pylib where
  "reference =
     \<lparr> re_search = ref_search,
       str_lower = map chr_lower,
       str_upper = map chr_upper,
       str_isdigit = ref_isdigit,
       float_of = ref_float \<rparr>"

section \<open>Notions of the specification\<close>

subsection \<open>Currency tokens\<close>

text \<open>
  The specification describes currency detection as a scan of the matched text for an
  ordered list of token groups, each with one symbol. A token is a currency sign, looked
  for as it is; a code in capitals, looked for in the upper-cased text; or a word in small
  letters, looked for in the lower-cased text.
\<close>

datatype currency_token = Sign pystr | Code pystr | Word pystr

fun token_text :: "currency_token \<Rightarrow> pystr" where
  "token_text (Sign s) = s"
| "token_text (Code s) = s"
| "token_text (Word s) = s"

fun token_present :: "pylib \<Rightarrow> pystr \<Rightarrow> currency_token \<Rightarrow> bool" where
  "token_present lib matched (Sign s) = py_in s matched"
| "token_present lib matched (Code s) = py_in s (str_upper lib matched)"
| "token_present lib matched (Word s) = py_in s (str_lower lib matched)"

definition euro_tokens :: "currency_token list" where
  "euro_tokens = [Sign euro, Code (ascii ''EUR''), Word evro_word]"

definition dollar_tokens :: "currency_token list" where
  "dollar_tokens = [Sign dollar, Code (ascii ''USD''), Word (ascii ''dollar''), Word dollar_word_ru]"

definition currency_groups :: "(pystr \<times> currency_token list) list" where
  "currency_groups = [(euro, euro_tokens), (dollar, dollar_tokens)]"

fun first_group :: "pylib \<Rightarrow> (pystr \<times> currency_token list) list \<Rightarrow> pystr \<Rightarrow> pystr" where
  "first_group lib [] matched = []"
| "first_group lib ((symbol, tokens) # rest) matched =
     (if list_ex (token_present lib matched) tokens then symbol
      else first_group lib rest matched)"

text \<open>
  Two strings are equal up to case when the simple case pairs make them equal; a token
  occurs in a text up to case when the text, from some position on, starts with it up to
  case.
\<close>

definition eq_ignoring_case :: "pystr \<Rightarrow> pystr \<Rightarrow> bool" where
  "eq_ignoring_case u v = (map chr_lower u = map chr_lower v)"

fun occurs_ignoring_case :: "pystr \<Rightarrow> pystr \<Rightarrow> bool" where
  "occurs_ignoring_case token [] = eq_ignoring_case [] token"
| "occurs_ignoring_case token (c # cs) =
     (eq_ignoring_case (take (length token) (c # cs)) token \<or> occurs_ignoring_case token cs)"

subsection \<open>The rightmost-separator rule\<close>







subsection \<open>Case folding\<close>






subsection \<open>Escaped keywords\<close>


section \<open>A catalog for concrete runs\<close>

text \<open>
  One product, three price patterns and the default number pattern, as a configuration
  file would give them.
\<close>

definition dollar_pattern :: PricePattern where
  "dollar_pattern = \<lparr> pattern = Some (bslash ''$'' @ bslash ''s*{price}''), min_value = None \<rparr>"

definition euro_pattern :: PricePattern where
  "euro_pattern =
     \<lparr> pattern = Some (ascii ''{price}'' @ bslash ''s*(?:EUR|'' @ euro @ ascii '')''),
       min_value = Some (Finite 1000) \<rparr>"

definition bare_number_pattern :: PricePattern where
  "bare_number_pattern = \<lparr> pattern = Some (ascii ''{price}''), min_value = Some (Finite 0) \<rparr>"

definition phone :: Product where
  "phone =
     \<lparr> name = Some (ascii ''Phone''),
       keywords' = [ascii ''phone''],
       exclude_keywords = [ascii ''scam''],
       price_range = Some \<lparr> range_min = Some (Finite 100), range_max = Some (Finite 500) \<rparr>,
       notify = None \<rparr>"

definition shop_config :: Config where
  "shop_config =
     \<lparr> cfg_products = Some [phone],
       cfg_case_sensitive = None,
       cfg_whole_word = None,
       cfg_regex_enabled = None,
       cfg_price_patterns = Some [euro_pattern, dollar_pattern, bare_number_pattern],
       cfg_price_number_regex = None \<rparr>"

definition shop :: ProductMatcher where
  "shop = init shop_config"

text \<open>A second shop that matches whole words only, and a product for a car make.\<close>

definition whole_word_shop :: ProductMatcher where
  "whole_word_shop = shop \<lparr> whole_word := True \<rparr>"




text \<open>A library whose pattern search always raises.\<close>

definition raising :: pylib where
  "raising = reference \<lparr> re_search := (\<lambda>ignorecase pat s. Inl OtherError) \<rparr>"

section \<open>Normalization\<close>

lemma table_get_idem: "table_get (table_get c) = table_get c"
  by (simp add: table_get_def CYRILLIC_TO_LATIN_def)

text \<open>
  Claim C8. Normalizing twice is normalizing once, for every string; and no character
  that the look-alike table produces is one of its keys.
\<close>

theorem normalize_text_idempotent:
  "normalize_text (normalize_text x) = normalize_text x
   \<and> snd ` set CYRILLIC_TO_LATIN \<inter> fst ` set CYRILLIC_TO_LATIN = {}"
  by (simp add: normalize_text_def table_get_idem) (simp add: CYRILLIC_TO_LATIN_def)

text \<open>The obfuscated spelling of \<^verbatim>\<open>iPhone\<close> (Cyrillic er, o and ie) is already stable
  after one pass.\<close>

theorem normalize_text_idempotent_witness:
  "normalize_text (normalize_text [105, 0x420, 104, 0x43E, 110, 0x435])
   = normalize_text [105, 0x420, 104, 0x43E, 110, 0x435]"
  using normalize_text_idempotent [of "[105, 0x420, 104, 0x43E, 110, 0x435]"] by simp

section \<open>The empty message\<close>

text \<open>
  Claim C10. For the empty message \<^verbatim>\<open>match_message\<close> returns the empty list, for every
  catalog, every setting and every library: no product is evaluated, so not even a
  pattern search that always raises is consulted.
\<close>

theorem match_message_empty:
  "match_message lib self [] = Inr []"
  by (simp add: match_message_def)

text \<open>A search that raises on every call is never called.\<close>

theorem match_message_empty_witness:
  "match_message raising shop [] = Inr []
   \<and> match_message raising shop (ascii ''phone'') = Inl OtherError"
proof -
  have "match_message raising shop (ascii ''phone'') = Inl OtherError"
    by code_simp
  then show ?thesis
    using match_message_empty [of raising shop] by simp
qed

section \<open>Currency detection\<close>

lemma startswith_take: "startswith s p = (take (length p) s = p)"
  by (induction s p rule: startswith.induct) auto

lemma map_eq_up_to_case:
  assumes "\<And>c x. c \<in> set token \<Longrightarrow> (f x = c) = (chr_lower x = chr_lower c)"
  shows "(map f u = token) = (map chr_lower u = map chr_lower token)"
  using assms
proof (induction u arbitrary: token)
  case Nil
  then show ?case by auto
next
  case (Cons x xs)
  show ?case
  proof (cases token)
    case Nil
    then show ?thesis by simp
  next
    case (Cons c cs)
    have "(map f xs = cs) = (map chr_lower xs = map chr_lower cs)"
      using Cons.IH [of cs] Cons.prems Cons by simp
    moreover have "(f x = c) = (chr_lower x = chr_lower c)"
      using Cons.prems Cons by simp
    ultimately show ?thesis using Cons by simp
  qed
qed

lemma py_in_map_ignoring_case:
  assumes "\<And>c x. c \<in> set token \<Longrightarrow> (f x = c) = (chr_lower x = chr_lower c)"
  shows "py_in token (map f s) = occurs_ignoring_case token s"
proof (induction s)
  case Nil
  show ?case using map_eq_up_to_case [where u = "[]" and f = f and token = token] assms
    by (auto simp: eq_ignoring_case_def)
next
  case (Cons c cs)
  have "(map f (take (length token) (c # cs)) = token)
        = (map chr_lower (take (length token) (c # cs)) = map chr_lower token)"
    using map_eq_up_to_case [where u = "take (length token) (c # cs)" and f = f and token = token]
      assms by blast
  then have "startswith (map f (c # cs)) token
             = eq_ignoring_case (take (length token) (c # cs)) token"
    unfolding startswith_take eq_ignoring_case_def take_map by simp
  then show ?case using Cons by simp
qed

lemma upper_is_capital:
  "65 \<le> c \<Longrightarrow> c \<le> 90 \<Longrightarrow> (chr_upper x = c) = (chr_lower x = chr_lower c)"
  unfolding chr_upper_def chr_lower_def by (simp split: if_splits) linarith

lemma caseless_char:
  "c = 36 \<or> c = 0x20AC \<Longrightarrow> (x = c) = (chr_lower x = chr_lower c)"
  unfolding chr_lower_def by (simp split: if_splits) linarith

lemma token_EUR: "c \<in> set (ascii ''EUR'') \<Longrightarrow> 65 \<le> c \<and> c \<le> 90"
  by (auto simp: ascii_def)

lemma token_USD: "c \<in> set (ascii ''USD'') \<Longrightarrow> 65 \<le> c \<and> c \<le> 90"
  by (auto simp: ascii_def)

lemma token_dollar: "c \<in> set (ascii ''dollar'') \<Longrightarrow> chr_lower c = c"
  by (auto simp: ascii_def chr_lower_def)

lemma token_evro: "c \<in> set evro_word \<Longrightarrow> chr_lower c = c"
  by (auto simp: evro_word_def chr_lower_def)

lemma token_dollar_ru: "c \<in> set dollar_word_ru \<Longrightarrow> chr_lower c = c"
  by (auto simp: dollar_word_ru_def chr_lower_def)

lemma currency_signs:
  "py_in euro t = occurs_ignoring_case euro t"
  "py_in dollar t = occurs_ignoring_case dollar t"
proof -
  have "py_in euro (map (\<lambda>x. x) t) = occurs_ignoring_case euro t"
    by (rule py_in_map_ignoring_case, rule caseless_char) (simp add: euro_def)
  then show "py_in euro t = occurs_ignoring_case euro t" by simp
  have "py_in dollar (map (\<lambda>x. x) t) = occurs_ignoring_case dollar t"
    by (rule py_in_map_ignoring_case, rule caseless_char) (simp add: dollar_def)
  then show "py_in dollar t = occurs_ignoring_case dollar t" by simp
qed

lemma currency_codes:
  "py_in (ascii ''EUR'') (map chr_upper t) = occurs_ignoring_case (ascii ''EUR'') t"
  "py_in (ascii ''USD'') (map chr_upper t) = occurs_ignoring_case (ascii ''USD'') t"
proof -
  show "py_in (ascii ''EUR'') (map chr_upper t) = occurs_ignoring_case (ascii ''EUR'') t"
    by (rule py_in_map_ignoring_case, rule upper_is_capital) (simp_all add: token_EUR)
  show "py_in (ascii ''USD'') (map chr_upper t) = occurs_ignoring_case (ascii ''USD'') t"
    by (rule py_in_map_ignoring_case, rule upper_is_capital) (simp_all add: token_USD)
qed

lemma currency_words:
  "py_in (ascii ''dollar'') (map chr_lower t) = occurs_ignoring_case (ascii ''dollar'') t"
  "py_in evro_word (map chr_lower t) = occurs_ignoring_case evro_word t"
  "py_in dollar_word_ru (map chr_lower t) = occurs_ignoring_case dollar_word_ru t"
  using token_dollar token_evro token_dollar_ru
  by (simp_all add: py_in_map_ignoring_case)

lemma simple_case_tokens:
  assumes "str_upper lib matched = map chr_upper matched"
      and "str_lower lib matched = map chr_lower matched"
      and "tok \<in> set (euro_tokens @ dollar_tokens)"
  shows "token_present lib matched tok = occurs_ignoring_case (token_text tok) matched"
  using assms
  by (auto simp: euro_tokens_def dollar_tokens_def currency_signs currency_codes
      currency_words)

text \<open>
  Claim C9. For every library and every matched span, \<^verbatim>\<open>_detect_currency\<close> returns the
  symbol of the first group, the euro group before the dollar group, that has a token
  present in the span: a sign as it is, a code in the upper-cased span, a word in the
  lower-cased span. It returns the empty string when no token of either group is present,
  and the euro sign when tokens of both groups are. Where the library's \<^verbatim>\<open>upper()\<close> and
  \<^verbatim>\<open>lower()\<close> map the span as the simple case pairs do, a token is present exactly when
  it occurs in the span up to case.
\<close>

theorem detect_currency_first_group:
  "detect_currency lib matched = first_group lib currency_groups matched
   \<and> (detect_currency lib matched = []
        \<longleftrightarrow> \<not> list_ex (token_present lib matched) (euro_tokens @ dollar_tokens))
   \<and> (list_ex (token_present lib matched) euro_tokens
       \<and> list_ex (token_present lib matched) dollar_tokens
       \<longrightarrow> detect_currency lib matched = euro)
   \<and> (str_upper lib matched = map chr_upper matched
       \<and> str_lower lib matched = map chr_lower matched
       \<longrightarrow> (\<forall>tok \<in> set (euro_tokens @ dollar_tokens).
              token_present lib matched tok
              = occurs_ignoring_case (token_text tok) matched))"
proof (intro conjI impI ballI)
  show "detect_currency lib matched = first_group lib currency_groups matched"
    by (simp add: detect_currency_def currency_groups_def euro_tokens_def dollar_tokens_def)
  show "(detect_currency lib matched = [])
        = (\<not> list_ex (token_present lib matched) (euro_tokens @ dollar_tokens))"
    by (simp add: detect_currency_def euro_tokens_def dollar_tokens_def euro_def dollar_def)
  show "detect_currency lib matched = euro"
    if "list_ex (token_present lib matched) euro_tokens
        \<and> list_ex (token_present lib matched) dollar_tokens"
    using that by (simp add: detect_currency_def euro_tokens_def)
  show "token_present lib matched tok = occurs_ignoring_case (token_text tok) matched"
    if "str_upper lib matched = map chr_upper matched
        \<and> str_lower lib matched = map chr_lower matched"
      and "tok \<in> set (euro_tokens @ dollar_tokens)" for tok
    using that simple_case_tokens by blast
qed

text \<open>
  A span with a dollar code in small letters and a euro code in mixed case: tokens of
  both groups are present, and the result is the euro sign. A span with the dollar word
  in capitals gives the dollar sign; a span with a number only gives the empty string.
\<close>

theorem detect_currency_first_group_witness:
  "list_ex (token_present reference (ascii ''100 usd/Eur'')) euro_tokens
   \<and> list_ex (token_present reference (ascii ''100 usd/Eur'')) dollar_tokens
   \<and> detect_currency reference (ascii ''100 usd/Eur'') = euro
   \<and> first_group reference currency_groups (ascii ''100 usd/Eur'') = euro
   \<and> occurs_ignoring_case (ascii ''USD'') (ascii ''100 usd/Eur'')
   \<and> occurs_ignoring_case (ascii ''EUR'') (ascii ''100 usd/Eur'')
   \<and> \<not> occurs_ignoring_case (ascii ''dollar'') (ascii ''100 usd/Eur'')
   \<and> detect_currency reference (ascii ''5 DOLLAR'') = dollar
   \<and> detect_currency reference (ascii ''100'') = []"
proof -
  let ?s = "ascii ''100 usd/Eur''"
  have e: "list_ex (token_present reference ?s) euro_tokens"
    by code_simp
  have d: "list_ex (token_present reference ?s) dollar_tokens"
    by code_simp
  have u: "str_upper reference ?s = map chr_upper ?s"
          "str_lower reference ?s = map chr_lower ?s"
    by (simp_all add: reference_def)
  have t: "token_present reference ?s (Code (ascii ''USD''))"
          "token_present reference ?s (Code (ascii ''EUR''))"
          "\<not> token_present reference ?s (Word (ascii ''dollar''))"
    by code_simp+
  have m: "Code (ascii ''USD'') \<in> set (euro_tokens @ dollar_tokens)"
          "Code (ascii ''EUR'') \<in> set (euro_tokens @ dollar_tokens)"
          "Word (ascii ''dollar'') \<in> set (euro_tokens @ dollar_tokens)"
    by (simp_all add: euro_tokens_def dollar_tokens_def)
  have o: "detect_currency reference (ascii ''5 DOLLAR'') = dollar"
          "detect_currency reference (ascii ''100'') = []"
    by code_simp+
  note c9 = detect_currency_first_group [of reference ?s]
  have r: "detect_currency reference ?s = euro"
    using c9 e d by blast
  have f: "first_group reference currency_groups ?s = euro"
    using c9 r by metis
  have a: "\<forall>tok \<in> set (euro_tokens @ dollar_tokens).
             token_present reference ?s tok = occurs_ignoring_case (token_text tok) ?s"
    using c9 u by blast
  have o1: "occurs_ignoring_case (ascii ''USD'') ?s"
    using a m(1) t(1) token_text.simps(2) by metis
  have o2: "occurs_ignoring_case (ascii ''EUR'') ?s"
    using a m(2) t(2) token_text.simps(2) by metis
  have o3: "\<not> occurs_ignoring_case (ascii ''dollar'') ?s"
    using a m(3) t(3) token_text.simps(3) by metis
  show ?thesis using e d r f o1 o2 o3 o by blast
qed

section \<open>Exclusion\<close>

lemma any_excluded_hit:
  "k \<in> set ks \<Longrightarrow> match_keyword lib self text k = Inr True
   \<Longrightarrow> any_excluded lib self text ks \<noteq> Inr False"
  by (induction ks) (auto split: sum.splits)

text \<open>
  Claim C5. If some exclusion keyword of a product matches the prepared message text,
  \<^verbatim>\<open>_match_product\<close> gives no MatchResult for it, whatever the inclusion keywords do;
  so a catalog of that one product gives no result at all.
\<close>

theorem exclusion_overrides_inclusion:
  assumes "exclude_keyword \<in> set (exclude_keywords product)"
      and "match_keyword lib self (prepared_text lib self message_text) exclude_keyword
           = Inr True"
  shows "match_product lib self message_text product \<noteq> Inr (Some r)
         \<and> (products self = [product]
              \<longrightarrow> match_message lib self message_text \<noteq> Inr (r # rest))"
proof -
  have x: "any_excluded lib self (prepared_text lib self message_text)
             (exclude_keywords product) \<noteq> Inr False"
    using assms by (rule any_excluded_hit)
  then have p: "match_product lib self message_text product \<noteq> Inr (Some r)" for r
    by (auto simp: match_product_def Let_def split: sum.splits option.splits if_splits)
  then show ?thesis
    by (auto simp: match_message_def split: sum.splits option.splits if_splits)
qed

text \<open>The message names the phone and calls it a scam: the inclusion keyword matches, the
  exclusion keyword too, and there is no result.\<close>

theorem exclusion_overrides_inclusion_witness:
  "ascii ''scam'' \<in> set (exclude_keywords phone)
   \<and> match_keyword reference shop (prepared_text reference shop (ascii ''phone scam $250''))
       (ascii ''phone'') = Inr True
   \<and> match_keyword reference shop (prepared_text reference shop (ascii ''phone scam $250''))
       (ascii ''scam'') = Inr True
   \<and> (\<nexists>r. match_product reference shop (ascii ''phone scam $250'') phone = Inr (Some r))
   \<and> match_message reference shop (ascii ''phone scam $250'') = Inr []"
proof -
  have m: "ascii ''scam'' \<in> set (exclude_keywords phone)"
    by (simp add: phone_def)
  have i: "match_keyword reference shop (prepared_text reference shop (ascii ''phone scam $250''))
             (ascii ''phone'') = Inr True"
    by code_simp
  have x: "match_keyword reference shop (prepared_text reference shop (ascii ''phone scam $250''))
             (ascii ''scam'') = Inr True"
    by code_simp
  have n: "\<nexists>r. match_product reference shop (ascii ''phone scam $250'') phone = Inr (Some r)"
    using exclusion_overrides_inclusion [OF m x] by blast
  have e: "match_message reference shop (ascii ''phone scam $250'') = Inr []"
    by code_simp
  show ?thesis using m i x n e by blast
qed

section \<open>The price range\<close>

text \<open>
  Claim C6. A product has passed the keyword and exclusion checks, declares a price range
  (a dictionary that is not empty) and a price \<open>p\<close> was extracted. Then it matches exactly
  when \<open>min \<le> p \<le> max\<close>, with \<open>min\<close> defaulting to 0 and \<open>max\<close> to no bound; both
  bounds are inclusive. The result carries the price and the currency.
\<close>

theorem price_range_inclusive:
  assumes "collect_keywords lib self (prepared_text lib self message_text) (keywords' product)
           = Inr found"
      and "found \<noteq> []"
      and "any_excluded lib self (prepared_text lib self message_text)
             (exclude_keywords product) = Inr False"
      and "price_range product = Some d"
      and "range_min d \<noteq> None \<or> range_max d \<noteq> None"
      and "extract_price lib self message_text
           = Inr (Some \<lparr> info_value = p, info_currency = c \<rparr>)"
  shows "match_product lib self message_text product =
           (if float_le (case range_min d of None \<Rightarrow> Finite 0 | Some lo \<Rightarrow> lo) p
               \<and> float_le p (case range_max d of None \<Rightarrow> PosInf | Some hi \<Rightarrow> hi)
            then Inr (Some (match_info product found (Some p) (Some c)))
            else Inr None)"
  using assms
  by (simp add: match_product_def Let_def truthy_range_def in_range_def)

text \<open>The range is 100 to 500: a price of 100 and a price of 500 match, 99 and 501 do not.\<close>

theorem price_range_inclusive_witness:
  "match_product reference shop (ascii ''phone $100'') phone
     = Inr (Some (match_info phone [ascii ''phone''] (Some (Finite 100)) (Some dollar)))
   \<and> match_product reference shop (ascii ''phone $500'') phone
     = Inr (Some (match_info phone [ascii ''phone''] (Some (Finite 500)) (Some dollar)))
   \<and> match_product reference shop (ascii ''phone $99'') phone = Inr None
   \<and> match_product reference shop (ascii ''phone $501'') phone = Inr None"
proof -
  have r: "price_range phone
             = Some \<lparr> range_min = Some (Finite 100), range_max = Some (Finite 500) \<rparr>"
    by (simp add: phone_def)
  have k: "collect_keywords reference shop (prepared_text reference shop (ascii ''phone $100''))
             (keywords' phone) = Inr [ascii ''phone'']"
          "collect_keywords reference shop (prepared_text reference shop (ascii ''phone $500''))
             (keywords' phone) = Inr [ascii ''phone'']"
          "collect_keywords reference shop (prepared_text reference shop (ascii ''phone $99''))
             (keywords' phone) = Inr [ascii ''phone'']"
          "collect_keywords reference shop (prepared_text reference shop (ascii ''phone $501''))
             (keywords' phone) = Inr [ascii ''phone'']"
    by code_simp+
  have x: "any_excluded reference shop (prepared_text reference shop (ascii ''phone $100''))
             (exclude_keywords phone) = Inr False"
          "any_excluded reference shop (prepared_text reference shop (ascii ''phone $500''))
             (exclude_keywords phone) = Inr False"
          "any_excluded reference shop (prepared_text reference shop (ascii ''phone $99''))
             (exclude_keywords phone) = Inr False"
          "any_excluded reference shop (prepared_text reference shop (ascii ''phone $501''))
             (exclude_keywords phone) = Inr False"
    by code_simp+
  have e: "extract_price reference shop (ascii ''phone $100'')
             = Inr (Some \<lparr> info_value = Finite 100, info_currency = dollar \<rparr>)"
          "extract_price reference shop (ascii ''phone $500'')
             = Inr (Some \<lparr> info_value = Finite 500, info_currency = dollar \<rparr>)"
          "extract_price reference shop (ascii ''phone $99'')
             = Inr (Some \<lparr> info_value = Finite 99, info_currency = dollar \<rparr>)"
          "extract_price reference shop (ascii ''phone $501'')
             = Inr (Some \<lparr> info_value = Finite 501, info_currency = dollar \<rparr>)"
    by code_simp+
  show ?thesis
    using price_range_inclusive [OF k(1) _ x(1) r _ e(1)]
          price_range_inclusive [OF k(2) _ x(2) r _ e(2)]
          price_range_inclusive [OF k(3) _ x(3) r _ e(3)]
          price_range_inclusive [OF k(4) _ x(4) r _ e(4)]
    by simp
qed

section \<open>A price range and no price\<close>






section \<open>The order of the price patterns\<close>




section \<open>Parsing a price\<close>














section \<open>Case folding\<close>








section \<open>Malformed keyword patterns\<close>












text \<open>
  Claim C7 says that a malformed keyword pattern never makes the matcher raise. The
  matcher catches \<^verbatim>\<open>re.error\<close> only. A repetition count of 4294967295 makes the
  pattern search raise \<^verbatim>\<open>OverflowError\<close>, which is not a \<^verbatim>\<open>re.error\<close>: the
  keyword test raises it, with and without \<^verbatim>\<open>whole_word\<close>, and so does
  \<^verbatim>\<open>match_message\<close> for a product with this keyword.
\<close>

theorem malformed_keyword_raises_counterexample:
  "regex_enabled shop
   \<and> re_search reference False (ascii ''a{4294967295}'') (ascii ''a phone'')
       = Inl OverflowError
   \<and> match_keyword reference shop (prepared_text reference shop (ascii ''a phone''))
       (ascii ''a{4294967295}'') = Inl OverflowError
   \<and> match_keyword reference whole_word_shop
       (prepared_text reference whole_word_shop (ascii ''a phone''))
       (ascii ''a{4294967295}'') = Inl OverflowError
   \<and> match_message reference
       (shop \<lparr> products := [phone \<lparr> keywords' := [ascii ''a{4294967295}''] \<rparr>] \<rparr>)
       (ascii ''a phone'') = Inl OverflowError"
  by code_simp



end
